theory Spec2Isabelle
  imports Main "HOL-Library.Word"
begin

unbundle bit_operations_syntax

section \<open>JavaScript strings, errors and numbers\<close>

text \<open>
  A JavaScript string is a sequence of UTF-16 code units; \<open>charCodeAt\<close>, \<open>length\<close>,
  \<open>slice\<close> and the regular expression engine (without the \<open>u\<close> flag) all work on code
  units. \<open>str\<close> embeds an ASCII literal of the source.
\<close>

type_synonym jschar = "16 word"
type_synonym jsstring = "jschar list"

definition str :: "string \<Rightarrow> jsstring" where
  "str s = map of_char s"

text \<open>
  Exceptions are values. \<open>Error\<close> is what the source throws itself with \<open>new Error(msg)\<close>;
  the other three are raised by the runtime and carry the engine's message.
\<close>

datatype error =
    Error jsstring
  | TypeError jsstring
  | RangeError jsstring
  | SyntaxError jsstring

fun message :: "error \<Rightarrow> jsstring" where
  "message (Error m) = m"
| "message (TypeError m) = m"
| "message (RangeError m) = m"
| "message (SyntaxError m) = m"

text \<open>\<open>String.prototype.repeat(count)\<close>: a negative count raises RangeError.\<close>

definition js_repeat :: "jsstring \<Rightarrow> int \<Rightarrow> error + jsstring" where
  "js_repeat s n =
     (if n < 0 then Inl (RangeError (str ''Invalid count value''))
      else Inr (concat (replicate (nat n) s)))"

text \<open>
  \<open>String.prototype.slice(start, end)\<close>: a negative index counts from the end, both
  indices are clamped to the string, and \<open>end\<close> defaults to the length.
\<close>

definition js_slice :: "jsstring \<Rightarrow> int \<Rightarrow> int option \<Rightarrow> jsstring" where
  "js_slice s start fin =
     (let len = int (length s);
          from = (if start < 0 then max (len + start) 0 else min start len);
          e = (case fin of None \<Rightarrow> len | Some x \<Rightarrow> x);
          to = (if e < 0 then max (len + e) 0 else min e len)
      in take (nat (to - from)) (drop (nat from) s))"

definition startsWith :: "jsstring \<Rightarrow> jsstring \<Rightarrow> bool" where
  "startsWith s p = (take (length p) s = p)"

text \<open>
  \<open>Number.prototype.toString(radix)\<close> on an integer: digits \<open>0-9a-z\<close>, most significant
  first, a leading minus sign for a negative number.
\<close>

definition digit_char :: "nat \<Rightarrow> jschar" where
  "digit_char d = (if d < 10 then of_nat (48 + d) else of_nat (87 + d))"

fun to_radix :: "nat \<Rightarrow> nat \<Rightarrow> jsstring" where
  "to_radix r n =
     (if r < 2 \<or> n < r then [digit_char n]
      else to_radix r (n div r) @ [digit_char (n mod r)])"

definition number_toString :: "int \<Rightarrow> nat \<Rightarrow> jsstring" where
  "number_toString x radix =
     (if x < 0 then str ''-'' @ to_radix radix (nat (- x)) else to_radix radix (nat x))"

text \<open>
  The bitwise operators convert their operands to 32-bit two's complement integers
  (ToInt32) and return such an integer. All numbers of the hash loop are integers of
  magnitude below \<open>2^53\<close>, where the double arithmetic of JavaScript is exact, so they
  are modelled as \<open>int\<close>.
\<close>

definition toInt32 :: "int \<Rightarrow> 32 word" where
  "toInt32 x = word_of_int x"

definition js_shl :: "int \<Rightarrow> int \<Rightarrow> int" where
  "js_shl x n = sint (push_bit (unat (toInt32 n AND 31)) (toInt32 x))"

definition js_band :: "int \<Rightarrow> int \<Rightarrow> int" where
  "js_band x y = sint (toInt32 x AND toInt32 y)"

section \<open>Utility functions (worker.js, index.ts)\<close>

text \<open>
  \<^verbatim>\<open>
  function maskPhoneNumber(phone) {
    if (phone.length < 4) return '*'.repeat(phone.length);
    return '*'.repeat(phone.length - 4) + phone.slice(-4);
  }
  \<close>
\<close>

definition maskPhoneNumber :: "jsstring \<Rightarrow> error + jsstring" where
  "maskPhoneNumber phone =
     (if length phone < 4 then js_repeat (str ''*'') (int (length phone))
      else (case js_repeat (str ''*'') (int (length phone) - 4) of
              Inl e \<Rightarrow> Inl e
            | Inr stars \<Rightarrow> Inr (stars @ js_slice phone (- 4) None)))"

text \<open>
  The regular expressions of the source use literal characters, the class \<open>\d\<close>
  (the ASCII digits, in JavaScript also with Unicode strings), concatenation and the
  bounded repetition \<open>{lo,hi}\<close>. \<open>residues r s\<close> lists what is left of \<open>s\<close> after each
  way \<open>r\<close> can match a prefix of it, the greedy alternative first, as a backtracking
  matcher tries them.
\<close>

datatype regex =
    Chr jschar
  | Digit
  | Seq regex regex
  | Repeat regex nat nat

definition is_digit :: "jschar \<Rightarrow> bool" where
  "is_digit c = (0x30 \<le> c \<and> c \<le> 0x39)"

fun repeat_residues ::
  "(jsstring \<Rightarrow> jsstring list) \<Rightarrow> nat \<Rightarrow> nat \<Rightarrow> jsstring \<Rightarrow> jsstring list" where
  "repeat_residues f lo 0 s = (if lo = 0 then [s] else [])"
| "repeat_residues f lo (Suc hi) s =
     concat (map (repeat_residues f (lo - 1) hi) (f s)) @ (if lo = 0 then [s] else [])"

primrec residues :: "regex \<Rightarrow> jsstring \<Rightarrow> jsstring list" where
  "residues (Chr c) = (\<lambda>s. case s of [] \<Rightarrow> [] | x # xs \<Rightarrow> if x = c then [xs] else [])"
| "residues Digit = (\<lambda>s. case s of [] \<Rightarrow> [] | x # xs \<Rightarrow> if is_digit x then [xs] else [])"
| "residues (Seq a b) = (\<lambda>s. concat (map (residues b) (residues a s)))"
| "residues (Repeat r lo hi) = repeat_residues (residues r) lo hi"

text \<open>\<open>/^r$/.test(s)\<close>: without the \<open>m\<close> flag both anchors are the ends of the input.\<close>

definition test_anchored :: "regex \<Rightarrow> jsstring \<Rightarrow> bool" where
  "test_anchored r s = ([] \<in> set (residues r s))"

text \<open>
  \<^verbatim>\<open>
  function isE164(number) {
    return number.startsWith('+') && /^\+\d{10,15}$/.test(number);
  }
  \<close>
\<close>

definition e164_regex :: regex where
  "e164_regex = Seq (Chr 0x2B) (Repeat Digit 10 15)"

definition isE164 :: "jsstring \<Rightarrow> bool" where
  "isE164 number = (startsWith number (str ''+'') \<and> test_anchored e164_regex number)"

text \<open>
  \<^verbatim>\<open>
  function createDocumentId(phone) {
    let hash = 0;
    for (let i = 0; i < phone.length; i++) {
      const char = phone.charCodeAt(i);
      hash = ((hash << 5) - hash) + char;
      hash = hash & hash;
    }
    return `spam_check_${Math.abs(hash).toString(16).slice(0, 8)}`;
  }
  \<close>
  The loop visits the code units in order; \<open>hash_loop\<close> takes the accumulator and the
  code units still to visit.
\<close>

fun hash_loop :: "int \<Rightarrow> jsstring \<Rightarrow> int" where
  "hash_loop hash [] = hash"
| "hash_loop hash (c # cs) =
     (let char = uint c;
          h = (js_shl hash 5 - hash) + char
      in hash_loop (js_band h h) cs)"

definition createDocumentId :: "jsstring \<Rightarrow> jsstring" where
  "createDocumentId phone =
     str ''spam_check_'' @ js_slice (number_toString \<bar>hash_loop 0 phone\<bar> 16) 0 (Some 8)"

text \<open>
  The reference of the specification: a 32-bit accumulator, starting from 0, with
  \<open>hash = hash * 31 + charCode\<close> wrapping around at each step.
\<close>

definition ref_step :: "32 word \<Rightarrow> jschar \<Rightarrow> 32 word" where
  "ref_step h c = h * 31 + ucast c"

definition ref_hash :: "jsstring \<Rightarrow> 32 word" where
  "ref_hash s = foldl ref_step 0 s"

section \<open>JavaScript values\<close>

text \<open>
  What \<open>JSON.parse\<close> returns, and \<open>undefined\<close>. An object is the list of its own
  properties; a lookup takes the first binding of a key. The numbers the program looks
  at (the score, \<open>0\<close> and \<open>1\<close>) are integers, so a number is an \<open>int\<close>.
\<close>

datatype jsval =
    Undefined
  | Null
  | Bool bool
  | Num int
  | Str jsstring
  | Arr "jsval list"
  | Obj "(jsstring \<times> jsval) list"

definition and_then :: "error + 'a \<Rightarrow> ('a \<Rightarrow> error + 'b) \<Rightarrow> error + 'b" where
  "and_then m f = (case m of Inl e \<Rightarrow> Inl e | Inr x \<Rightarrow> f x)"

text \<open>
  \<open>v.k\<close>: reading a property of \<open>undefined\<close> or \<open>null\<close> raises TypeError; a property
  that is absent reads as \<open>undefined\<close>. The program reads no property that a
  string, number, boolean or array has by itself (\<open>length\<close>, an index).
\<close>

fun get_prop :: "jsval \<Rightarrow> jsstring \<Rightarrow> error + jsval" where
  "get_prop Undefined k = Inl (TypeError (str ''Cannot read properties of undefined''))"
| "get_prop Null k = Inl (TypeError (str ''Cannot read properties of null''))"
| "get_prop (Obj kvs) k = Inr (case map_of kvs k of None \<Rightarrow> Undefined | Some v \<Rightarrow> v)"
| "get_prop (Bool b) k = Inr Undefined"
| "get_prop (Num n) k = Inr Undefined"
| "get_prop (Str s) k = Inr Undefined"
| "get_prop (Arr xs) k = Inr Undefined"

fun nullish :: "jsval \<Rightarrow> bool" where
  "nullish Undefined = True"
| "nullish Null = True"
| "nullish (Bool b) = False"
| "nullish (Num n) = False"
| "nullish (Str s) = False"
| "nullish (Arr xs) = False"
| "nullish (Obj kvs) = False"

text \<open>What \<open>!v\<close>, \<open>v || d\<close> and \<open>if (v)\<close> test.\<close>

fun truthy :: "jsval \<Rightarrow> bool" where
  "truthy Undefined = False"
| "truthy Null = False"
| "truthy (Bool b) = b"
| "truthy (Num n) = (n \<noteq> 0)"
| "truthy (Str s) = (s \<noteq> [])"
| "truthy (Arr xs) = True"
| "truthy (Obj kvs) = True"

definition or_else :: "jsval \<Rightarrow> jsval \<Rightarrow> jsval" where
  "or_else v d = (if truthy v then v else d)"

definition coalesce :: "jsval \<Rightarrow> jsval \<Rightarrow> jsval" where
  "coalesce v d = (if nullish v then d else v)"

fun join_comma :: "jsstring list \<Rightarrow> jsstring" where
  "join_comma [] = []"
| "join_comma [x] = x"
| "join_comma (x # y # ys) = x @ str '','' @ join_comma (y # ys)"

text \<open>The conversion to a string that a template literal applies to \<open>${v}\<close>.\<close>

fun to_string :: "jsval \<Rightarrow> jsstring" where
  "to_string Undefined = str ''undefined''"
| "to_string Null = str ''null''"
| "to_string (Bool b) = (if b then str ''true'' else str ''false'')"
| "to_string (Num n) = number_toString n 10"
| "to_string (Str s) = s"
| "to_string (Arr xs) = join_comma (map (\<lambda>x. if nullish x then [] else to_string x) xs)"
| "to_string (Obj kvs) = str ''[object Object]''"

text \<open>\<open>String.prototype.trim\<close> removes white space and line terminators at both ends.\<close>

definition is_js_space :: "jschar \<Rightarrow> bool" where
  "is_js_space c =
     (c \<in> {0x09, 0x0A, 0x0B, 0x0C, 0x0D, 0x20, 0xA0, 0x1680, 0x2028, 0x2029, 0x202F,
            0x205F, 0x3000, 0xFEFF}
      \<or> (0x2000 \<le> c \<and> c \<le> 0x200A))"

definition trim :: "jsstring \<Rightarrow> jsstring" where
  "trim s = rev (dropWhile is_js_space (rev (dropWhile is_js_space s)))"

section \<open>The lookup client (worker.js, checkSpamScore)\<close>

text \<open>
  The worker's bindings are two strings. Twilio's SID and token are ASCII, so they are
  byte strings here, on which \<open>btoa\<close> does not raise.
\<close>

record env =
  TWILIO_ACCOUNT_SID :: string
  TWILIO_AUTH_TOKEN :: string

text \<open>
  One outbound \<open>fetch\<close>: its URL and the credentials that go, base64-encoded, into
  the Authorization header.
\<close>

record fetch_call =
  url :: jsstring
  basic_auth :: string

text \<open>
  What the platform answers: \<open>fetch\<close> rejects, or resolves to a response with a
  status and a body on which \<open>.json()\<close> raises or returns a value. The platform also
  holds the clock: \<open>Date.now()\<close> and \<open>new Date().toISOString()\<close>.
\<close>

datatype body = BadJson error | Json jsval

datatype fetch_outcome = NetworkFailure error | Response nat body

record platform =
  upstream :: "fetch_call \<Rightarrow> fetch_outcome"
  now_ms :: int
  now_iso :: jsstring

record spam_result =
  result_id :: jsstring
  phone_number_masked :: jsstring
  spam_score :: jsval
  reputation :: jsstring
  carrier :: jsval
  country_code :: jsval
  phone_type :: jsval
  checked_at :: jsstring
  source :: jsstring
  confidence :: jsstring

text \<open>
  \<^verbatim>\<open>
  const data = await response.json();
  const addOns = data.add_ons || {};
  const results = addOns.results || {};
  const nomorobo = results.nomorobo_spamscore || {};
  const result = nomorobo.result || {};
  const score = result.score ?? 0;
  return { id: createDocumentId(phoneNumber), phone_number_masked: maskPhoneNumber(phoneNumber),
    spam_score: score, reputation: score === 1 ? 'SPAM' : 'CLEAN',
    carrier: data.carrier?.name || 'Unknown', country_code: data.country_code || 'Unknown',
    phone_type: data.type || 'Unknown', checked_at: new Date().toISOString(),
    source: 'Twilio Lookup API + Nomorobo', confidence: [0, 1].includes(score) ? 'High' : 'Low' };
  \<close>
\<close>

definition parse_score :: "jsval \<Rightarrow> error + jsval" where
  "parse_score data =
     and_then (get_prop data (str ''add_ons'')) (\<lambda>a.
     and_then (get_prop (or_else a (Obj [])) (str ''results'')) (\<lambda>r.
     and_then (get_prop (or_else r (Obj [])) (str ''nomorobo_spamscore'')) (\<lambda>n.
     and_then (get_prop (or_else n (Obj [])) (str ''result'')) (\<lambda>res.
     and_then (get_prop (or_else res (Obj [])) (str ''score'')) (\<lambda>sc.
     Inr (coalesce sc (Num 0)))))))"

definition carrier_name :: "jsval \<Rightarrow> error + jsval" where
  "carrier_name data =
     and_then (get_prop data (str ''carrier'')) (\<lambda>c.
     and_then (if nullish c then Inr Undefined else get_prop c (str ''name'')) (\<lambda>n.
     Inr (or_else n (Str (str ''Unknown'')))))"

definition build_result :: "platform \<Rightarrow> jsstring \<Rightarrow> jsval \<Rightarrow> error + spam_result" where
  "build_result pf phoneNumber data =
     and_then (parse_score data) (\<lambda>score.
     and_then (maskPhoneNumber phoneNumber) (\<lambda>masked.
     and_then (carrier_name data) (\<lambda>car.
     and_then (get_prop data (str ''country_code'')) (\<lambda>cc.
     and_then (get_prop data (str ''type'')) (\<lambda>ty.
     Inr \<lparr> result_id = createDocumentId phoneNumber,
           phone_number_masked = masked,
           spam_score = score,
           reputation = (if score = Num 1 then str ''SPAM'' else str ''CLEAN''),
           carrier = car,
           country_code = or_else cc (Str (str ''Unknown'')),
           phone_type = or_else ty (Str (str ''Unknown'')),
           checked_at = now_iso pf,
           source = str ''Twilio Lookup API + Nomorobo'',
           confidence = (if score = Num 0 \<or> score = Num 1 then str ''High'' else str ''Low'') \<rparr>)))))"

text \<open>\<open>response.ok\<close>\<close>

definition ok :: "nat \<Rightarrow> bool" where
  "ok st = (200 \<le> st \<and> st \<le> 299)"

text \<open>
  \<^verbatim>\<open>
  async function checkSpamScore(phoneNumber, env) {
    if (!isE164(phoneNumber)) {
      throw new Error(`Invalid phone number format: ${phoneNumber}`);
    }
    const url = `https://lookups.twilio.com/v1/PhoneNumbers/${phoneNumber}?AddOns=nomorobo_spamscore`;
    const response = await fetch(url, { method: 'GET', headers: { 'Authorization':
        'Basic ' + btoa(`${env.TWILIO_ACCOUNT_SID}:${env.TWILIO_AUTH_TOKEN}`) } });
    if (response.status === 404) { throw new Error(`Phone number not found: ${phoneNumber}`); }
    if (response.status === 401) { throw new Error('Twilio authentication failed'); }
    if (response.status === 429) { throw new Error('Twilio rate limit exceeded'); }
    if (!response.ok) { throw new Error(`Twilio API error: ${response.status}`); }
    ...
  }
  \<close>
  The function returns what it throws or returns, and the outbound calls it made, in
  order.
\<close>

definition lookup_call :: "env \<Rightarrow> jsstring \<Rightarrow> fetch_call" where
  "lookup_call e phoneNumber =
     \<lparr> url = str ''https://lookups.twilio.com/v1/PhoneNumbers/'' @ phoneNumber
               @ str ''?AddOns=nomorobo_spamscore'',
       basic_auth = TWILIO_ACCOUNT_SID e @ '':'' @ TWILIO_AUTH_TOKEN e \<rparr>"

definition checkSpamScore ::
  "platform \<Rightarrow> env \<Rightarrow> jsstring \<Rightarrow> (error + spam_result) \<times> fetch_call list" where
  "checkSpamScore pf e phoneNumber =
     (if \<not> isE164 phoneNumber
      then (Inl (Error (str ''Invalid phone number format: '' @ phoneNumber)), [])
      else
        (case upstream pf (lookup_call e phoneNumber) of
           NetworkFailure err \<Rightarrow> Inl err
         | Response st b \<Rightarrow>
             if st = 404 then Inl (Error (str ''Phone number not found: '' @ phoneNumber))
             else if st = 401 then Inl (Error (str ''Twilio authentication failed''))
             else if st = 429 then Inl (Error (str ''Twilio rate limit exceeded''))
             else if \<not> ok st
               then Inl (Error (str ''Twilio API error: '' @ number_toString (int st) 10))
             else (case b of
                     BadJson err \<Rightarrow> Inl err
                   | Json data \<Rightarrow> build_result pf phoneNumber data),
         [lookup_call e phoneNumber]))"

section \<open>The lookup client of the event-stream variant (unnamed/part_000)\<close>

text \<open>
  The event-stream worker has its own \<open>checkSpamScore\<close>. The format check, the URL
  and the credentials are those of worker.js; after the \<open>fetch\<close> it has one test of
  the status only, and it returns a smaller record:
  \<^verbatim>\<open>
  if (!response.ok) {
    throw new Error(`Twilio API error: ${response.status}`);
  }
  const data = await response.json();
  const nomoroboResult = data.add_ons?.results?.nomorobo_spamscore;
  const score = nomoroboResult?.result?.score ?? 0;
  return { id: createDocumentId(phoneNumber), phone_number_masked: maskPhoneNumber(phoneNumber),
    spam_score: score, reputation: score === 1 ? 'SPAM' : 'CLEAN',
    checked_at: new Date().toISOString() };
  \<close>
  \<open>v?.k\<close> is \<open>undefined\<close> when \<open>v\<close> is \<open>undefined\<close> or \<open>null\<close>, and \<open>v.k\<close> otherwise.
\<close>

definition opt_prop :: "jsval \<Rightarrow> jsstring \<Rightarrow> error + jsval" where
  "opt_prop v k = (if nullish v then Inr Undefined else get_prop v k)"

record sse_spam_result =
  sse_id :: jsstring
  sse_phone_number_masked :: jsstring
  sse_spam_score :: jsval
  sse_reputation :: jsstring
  sse_checked_at :: jsstring

definition parse_score_sse :: "jsval \<Rightarrow> error + jsval" where
  "parse_score_sse data =
     and_then (get_prop data (str ''add_ons'')) (\<lambda>a.
     and_then (opt_prop a (str ''results'')) (\<lambda>r.
     and_then (opt_prop r (str ''nomorobo_spamscore'')) (\<lambda>nomoroboResult.
     and_then (opt_prop nomoroboResult (str ''result'')) (\<lambda>res.
     and_then (opt_prop res (str ''score'')) (\<lambda>sc.
     Inr (coalesce sc (Num 0)))))))"

definition build_result_sse :: "platform \<Rightarrow> jsstring \<Rightarrow> jsval \<Rightarrow> error + sse_spam_result" where
  "build_result_sse pf phoneNumber data =
     and_then (parse_score_sse data) (\<lambda>score.
     and_then (maskPhoneNumber phoneNumber) (\<lambda>masked.
     Inr \<lparr> sse_id = createDocumentId phoneNumber,
           sse_phone_number_masked = masked,
           sse_spam_score = score,
           sse_reputation = (if score = Num 1 then str ''SPAM'' else str ''CLEAN''),
           sse_checked_at = now_iso pf \<rparr>))"

definition checkSpamScore_sse ::
  "platform \<Rightarrow> env \<Rightarrow> jsstring \<Rightarrow> (error + sse_spam_result) \<times> fetch_call list" where
  "checkSpamScore_sse pf e phoneNumber =
     (if \<not> isE164 phoneNumber
      then (Inl (Error (str ''Invalid phone number format: '' @ phoneNumber)), [])
      else
        (case upstream pf (lookup_call e phoneNumber) of
           NetworkFailure err \<Rightarrow> Inl err
         | Response st b \<Rightarrow>
             if \<not> ok st
               then Inl (Error (str ''Twilio API error: '' @ number_toString (int st) 10))
             else (case b of
                     BadJson err \<Rightarrow> Inl err
                   | Json data \<Rightarrow> build_result_sse pf phoneNumber data),
         [lookup_call e phoneNumber]))"

section \<open>The protocol handlers (worker.js)\<close>

record item =
  item_id :: jsstring
  item_title :: jsstring
  item_text :: jsstring
  item_url :: jsstring

text \<open>
  The \<open>result\<close> member of a response. \<open>SearchResults items\<close> is
  \<open>{content: [{type: 'text', text: JSON.stringify({results: items})}]}\<close> and
  \<open>FetchMessage m\<close> is the same with \<open>JSON.stringify({message: m})\<close>; the two static
  descriptors of \<open>initialize\<close> and \<open>tools/list\<close> are constants.
\<close>

datatype payload =
    Capabilities
  | ToolDescriptors
  | SearchResults "item list"
  | FetchMessage jsstring

text \<open>
  A response is \<open>{jsonrpc: '2.0', id, result}\<close> or
  \<open>{jsonrpc: '2.0', id, error: {code, message}}\<close>.
\<close>

datatype envelope =
    Result jsval payload
  | ErrorEnvelope jsval int jsstring

definition reply :: "jsval \<Rightarrow> payload \<Rightarrow> error + envelope" where
  "reply request p = and_then (get_prop request (str ''id'')) (\<lambda>i. Inr (Result i p))"

definition reply_error :: "jsval \<Rightarrow> int \<Rightarrow> jsstring \<Rightarrow> error + envelope" where
  "reply_error request code msg =
     and_then (get_prop request (str ''id'')) (\<lambda>i. Inr (ErrorEnvelope i code msg))"

definition handleInitialize :: "jsval \<Rightarrow> error + envelope" where
  "handleInitialize request = reply request Capabilities"

definition handleToolsList :: "jsval \<Rightarrow> error + envelope" where
  "handleToolsList request = reply request ToolDescriptors"

text \<open>\<open>args.query?.trim()\<close>: \<open>None\<close> is \<open>undefined\<close>.\<close>

definition query_of :: "jsval \<Rightarrow> error + jsstring option" where
  "query_of args =
     and_then (get_prop args (str ''query'')) (\<lambda>q.
       if nullish q then Inr None
       else (case q of
               Str s \<Rightarrow> Inr (Some (trim s))
             | _ \<Rightarrow> Inl (TypeError (str ''args.query?.trim is not a function''))))"

definition success_item :: "spam_result \<Rightarrow> item" where
  "success_item r =
     \<lparr> item_id = result_id r,
       item_title = str ''Spam Check: '' @ phone_number_masked r,
       item_text = str ''Phone: '' @ phone_number_masked r @ str '', Score: '' @ to_string (spam_score r)
              @ str '', Reputation: '' @ reputation r @ str '', Carrier: '' @ to_string (carrier r),
       item_url = str ''https://spam-checker.example.com/report/'' @ result_id r \<rparr>"

definition error_item :: "platform \<Rightarrow> jsstring \<Rightarrow> error \<Rightarrow> error + item" where
  "error_item pf query err =
     and_then (maskPhoneNumber query) (\<lambda>masked.
     Inr \<lparr> item_id = str ''error_'' @ number_toString (now_ms pf) 10,
           item_title = str ''Error checking '' @ masked,
           item_text = str ''Could not check spam status: '' @ message err,
           item_url = str ''https://spam-checker.example.com/error'' \<rparr>)"

text \<open>
  The \<open>search\<close> branch of \<open>handleToolCall\<close>, after \<open>if (!query)\<close>: the \<open>try\<close> block
  holds the lookup and the construction of the answer, the \<open>catch\<close> block answers
  with the synthetic item.
\<close>

definition search_phone ::
  "platform \<Rightarrow> env \<Rightarrow> jsval \<Rightarrow> jsstring \<Rightarrow> (error + envelope) \<times> fetch_call list" where
  "search_phone pf e request query =
     (case checkSpamScore pf e query of (r, calls) \<Rightarrow>
        (case and_then r (\<lambda>spamResult. reply request (SearchResults [success_item spamResult])) of
           Inr answer \<Rightarrow> Inr answer
         | Inl err \<Rightarrow>
             and_then (error_item pf query err) (\<lambda>it. reply request (SearchResults [it])),
         calls))"

definition handleToolCall ::
  "platform \<Rightarrow> env \<Rightarrow> jsval \<Rightarrow> (error + envelope) \<times> fetch_call list" where
  "handleToolCall pf e request =
     (case and_then (get_prop request (str ''params'')) (\<lambda>params.
           and_then (get_prop params (str ''name'')) (\<lambda>name.
           and_then (get_prop params (str ''arguments'')) (\<lambda>args. Inr (name, args)))) of
        Inl err \<Rightarrow> (Inl err, [])
      | Inr (name, args) \<Rightarrow>
          if name = Str (str ''search'') then
            (case query_of args of
               Inl err \<Rightarrow> (Inl err, [])
             | Inr None \<Rightarrow> (reply request (SearchResults []), [])
             | Inr (Some query) \<Rightarrow>
                 if query = [] then (reply request (SearchResults []), [])
                 else if startsWith query (str ''+'') \<and> length query > 5
                   then search_phone pf e request query
                 else (reply request (SearchResults []), []))
          else if name = Str (str ''fetch'') then
            (case get_prop args (str ''id'') of
               Inl err \<Rightarrow> (Inl err, [])
             | Inr idv \<Rightarrow>
                 if \<not> truthy idv
                   then (reply_error request (- 32602) (str ''Document ID is required''), [])
                 else (reply request (FetchMessage
                         (str ''Document retrieval requires phone number re-check. Use search instead.'')),
                       []))
          else (reply_error request (- 32601) (str ''Unknown tool: '' @ to_string name), []))"

section \<open>The synchronous transport (worker.js, default.fetch)\<close>

text \<open>
  A request is its method, the path of its URL and what \<open>request.json()\<close> gives. A
  response is its status (200 when the source gives none) and its body.
\<close>

record http_request =
  http_method :: jsstring
  pathname :: jsstring
  json_body :: body

datatype http_content =
    NoContent
  | TextContent jsstring
  | HealthContent jsstring
  | JsonContent envelope

record http_response =
  status :: nat
  content :: http_content

text \<open>The body of the \<open>try\<close> block of the \<open>/mcp\<close> route.\<close>

definition dispatch ::
  "platform \<Rightarrow> env \<Rightarrow> body \<Rightarrow> (error + envelope) \<times> fetch_call list" where
  "dispatch pf e b =
     (case b of
        BadJson err \<Rightarrow> (Inl err, [])
      | Json mcpRequest \<Rightarrow>
          (case get_prop mcpRequest (str ''method'') of
             Inl err \<Rightarrow> (Inl err, [])
           | Inr m \<Rightarrow>
               if m = Str (str ''initialize'') then (handleInitialize mcpRequest, [])
               else if m = Str (str ''tools/list'') then (handleToolsList mcpRequest, [])
               else if m = Str (str ''tools/call'') then handleToolCall pf e mcpRequest
               else (reply_error mcpRequest (- 32601) (str ''Unknown method: '' @ to_string m), [])))"

definition default_fetch ::
  "platform \<Rightarrow> env \<Rightarrow> http_request \<Rightarrow> http_response \<times> fetch_call list" where
  "default_fetch pf e request =
     (if http_method request = str ''OPTIONS'' then (\<lparr> status = 200, content = NoContent \<rparr>, [])
      else if pathname request = str ''/health''
        then (\<lparr> status = 200, content = HealthContent (now_iso pf) \<rparr>, [])
      else if pathname request = str ''/mcp'' \<and> http_method request = str ''POST'' then
        (case dispatch pf e (json_body request) of
           (Inr response, calls) \<Rightarrow> (\<lparr> status = 200, content = JsonContent response \<rparr>, calls)
         | (Inl err, calls) \<Rightarrow>
             (\<lparr> status = 500,
                content = JsonContent
                  (ErrorEnvelope Null (- 32603) (str ''Internal error: '' @ message err)) \<rparr>,
              calls))
      else (\<lparr> status = 200,
              content = TextContent (str ''Spam Checker MCP Server - use /mcp endpoint'') \<rparr>, []))"

section \<open>Reading a hexadecimal numeral, stubs for concrete runs\<close>

text \<open>
  The value of a lowercase hexadecimal numeral, most significant digit first; \<open>None\<close>
  for any other character. It is the reference against which the rendering of
  \<open>toString(16)\<close> is checked.
\<close>

definition hex_value :: "jschar \<Rightarrow> nat option" where
  "hex_value c =
     (if 0x30 \<le> c \<and> c \<le> 0x39 then Some (unat c - 48)
      else if 0x61 \<le> c \<and> c \<le> 0x66 then Some (unat c - 87)
      else None)"

fun parse_hex_from :: "nat \<Rightarrow> jsstring \<Rightarrow> nat option" where
  "parse_hex_from acc [] = Some acc"
| "parse_hex_from acc (c # cs) =
     (case hex_value c of None \<Rightarrow> None | Some d \<Rightarrow> parse_hex_from (acc * 16 + d) cs)"

definition parse_hex :: "jsstring \<Rightarrow> nat option" where
  "parse_hex s = (if s = [] then None else parse_hex_from 0 s)"

text \<open>
  A platform whose upstream gives one fixed answer (the stubbed upstream of the
  specification's testable properties), a pair of credentials, and a \<open>tools/call\<close>
  message with request id 1.
\<close>

definition stub_platform :: "fetch_outcome \<Rightarrow> platform" where
  "stub_platform out =
     \<lparr> upstream = (\<lambda>call. out), now_ms = 1700000000000,
       now_iso = str ''2023-11-14T22:13:20.000Z'' \<rparr>"

definition test_env :: env where
  "test_env = \<lparr> TWILIO_ACCOUNT_SID = ''ACtest'', TWILIO_AUTH_TOKEN = ''secret'' \<rparr>"

definition tool_request :: "jsstring \<Rightarrow> jsval \<Rightarrow> jsval" where
  "tool_request name args =
     Obj [(str ''jsonrpc'', Str (str ''2.0'')),
          (str ''id'', Num 1),
          (str ''method'', Str (str ''tools/call'')),
          (str ''params'', Obj [(str ''name'', Str name), (str ''arguments'', args)])]"

text \<open>The code of the error that a response carries, if it carries one.\<close>

fun error_code :: "http_response \<Rightarrow> int option" where
  "error_code r =
     (case content r of JsonContent (ErrorEnvelope i code msg) \<Rightarrow> Some code | _ \<Rightarrow> None)"

section \<open>Strings and numerals\<close>

declare to_radix.simps [simp del]

lemma concat_replicate_single: "concat (replicate n [c]) = replicate n c"
  by (induction n) simp_all

lemma js_slice_last4: "4 \<le> length s \<Longrightarrow> js_slice s (- 4) None = drop (length s - 4) s"
  by (simp add: js_slice_def Let_def max_def nat_diff_distrib')

lemma js_slice_take: "0 \<le> n \<Longrightarrow> js_slice s 0 (Some n) = take (nat n) s"
  by (auto simp add: js_slice_def Let_def min_def)

lemma to_radix_numeral:
  "to_radix r (numeral n) =
     (if r < 2 \<or> numeral n < r then [digit_char (numeral n)]
      else to_radix r (numeral n div r) @ [digit_char (numeral n mod r)])"
  by (rule to_radix.simps)

lemma to_radix_nonempty: "to_radix r n \<noteq> []"
  by (subst to_radix.simps) simp

lemma small_cases:
  "d < 16 \<Longrightarrow> d = 0 \<or> d = 1 \<or> d = 2 \<or> d = 3 \<or> d = 4 \<or> d = 5 \<or> d = 6 \<or> d = 7 \<or> d = 8
    \<or> d = 9 \<or> d = 10 \<or> d = 11 \<or> d = 12 \<or> d = 13 \<or> d = 14 \<or> d = (15::nat)"
  by arith

lemma digit_char_hex: "d < 16 \<Longrightarrow> digit_char d \<in> set (str ''0123456789abcdef'')"
  by (drule small_cases, elim disjE) (simp_all add: digit_char_def str_def)

lemma hex_value_digit_char: "d < 16 \<Longrightarrow> hex_value (digit_char d) = Some d"
  by (drule small_cases, elim disjE) (simp_all add: digit_char_def hex_value_def)

lemma to_radix_hex: "set (to_radix 16 n) \<subseteq> set (str ''0123456789abcdef'')"
proof (induction n rule: less_induct)
  case (less n)
  show ?case
  proof (cases "n < 16")
    case True
    then show ?thesis
      using digit_char_hex [of n] by (simp add: to_radix.simps [of 16 n])
  next
    case False
    then have "n div 16 < n" by simp
    from less [OF this] False show ?thesis
      using digit_char_hex [of "n mod 16"] by (simp add: to_radix.simps [of 16 n])
  qed
qed

lemma to_radix_length: "n < 16 ^ Suc k \<Longrightarrow> length (to_radix 16 n) \<le> Suc k"
proof (induction k arbitrary: n)
  case 0
  then show ?case by (simp add: to_radix.simps [of 16 n])
next
  case (Suc k)
  show ?case
  proof (cases "n < 16")
    case True
    then show ?thesis by (simp add: to_radix.simps [of 16 n])
  next
    case False
    from Suc.prems have "n div 16 < 16 ^ Suc k"
      by (simp add: less_mult_imp_div_less)
    from Suc.IH [OF this] False show ?thesis
      by (simp add: to_radix.simps [of 16 n])
  qed
qed

lemma parse_hex_from_snoc:
  "parse_hex_from acc (xs @ [c]) =
     (case parse_hex_from acc xs of
        None \<Rightarrow> None
      | Some v \<Rightarrow> (case hex_value c of None \<Rightarrow> None | Some d \<Rightarrow> Some (v * 16 + d)))"
  by (induction xs arbitrary: acc) (simp_all split: option.splits)

lemma parse_hex_from_to_radix: "parse_hex_from 0 (to_radix 16 n) = Some n"
proof (induction n rule: less_induct)
  case (less n)
  show ?case
  proof (cases "n < 16")
    case True
    then show ?thesis by (simp add: to_radix.simps [of 16 n] hex_value_digit_char)
  next
    case False
    then have "n div 16 < n" by simp
    from less [OF this] False show ?thesis
      by (simp add: to_radix.simps [of 16 n] parse_hex_from_snoc hex_value_digit_char)
  qed
qed

lemma parse_hex_to_radix: "parse_hex (to_radix 16 n) = Some n"
  by (simp add: parse_hex_def to_radix_nonempty parse_hex_from_to_radix)

section \<open>Masking\<close>

lemma mask_eq:
  "maskPhoneNumber phone =
     Inr (if length phone < 4 then replicate (length phone) 0x2A
          else replicate (length phone - 4) 0x2A @ drop (length phone - 4) phone)"
  by (simp add: maskPhoneNumber_def js_repeat_def str_def concat_replicate_single
      js_slice_last4 nat_diff_distrib')

text \<open>
  C9. \<open>maskPhoneNumber\<close> never raises. For a string shorter than 4 it returns as many
  mask characters (\<open>*\<close>, code unit 0x2A) as the string is long; otherwise it returns
  \<open>length - 4\<close> mask characters followed by the last 4 code units of the string, so the
  result is as long as the input.
\<close>

theorem maskPhoneNumber_spec:
  "\<exists>masked. maskPhoneNumber phone = Inr masked
     \<and> length masked = length phone
     \<and> masked = (if length phone < 4 then replicate (length phone) 0x2A
                 else replicate (length phone - 4) 0x2A @ drop (length phone - 4) phone)"
  by (simp add: mask_eq)

theorem maskPhoneNumber_spec_witness:
  "maskPhoneNumber (str ''+12345678901'') = Inr (str ''********8901'')
   \<and> maskPhoneNumber (str ''+12'') = Inr (str ''***'')"
  using maskPhoneNumber_spec [of "str ''+12345678901''"] maskPhoneNumber_spec [of "str ''+12''"]
  by (auto simp add: str_def eval_nat_numeral)

section \<open>The format check\<close>

lemma repeat_digit:
  "set (repeat_residues (residues Digit) lo hi s) =
     {drop k s | k. lo \<le> k \<and> k \<le> hi \<and> k \<le> length s \<and> (\<forall>c \<in> set (take k s). is_digit c)}"
proof (induction hi arbitrary: lo s)
  case 0
  show ?case by auto
next
  case (Suc hi)
  show ?case
  proof (cases s)
    case Nil
    then show ?thesis by auto
  next
    case (Cons x xs)
    show ?thesis (is "?L = ?R")
    proof (cases "is_digit x")
      case False
      have L: "?L = (if lo = 0 then {s} else {})"
        using Cons False by simp
      have R: "?R = (if lo = 0 then {s} else {})"
      proof (intro set_eqI iffI)
        fix t assume "t \<in> ?R"
        then obtain k where k: "t = drop k s" "lo \<le> k" "\<forall>c \<in> set (take k s). is_digit c"
          by blast
        have "k = 0"
        proof (cases k)
          case (Suc j)
          with k(3) Cons False show ?thesis by simp
        qed simp
        with k show "t \<in> (if lo = 0 then {s} else {})" by simp
      next
        fix t assume "t \<in> (if lo = 0 then {s} else {})"
        then have "t = drop 0 s \<and> lo \<le> 0 \<and> 0 \<le> Suc hi \<and> 0 \<le> length s
             \<and> (\<forall>c \<in> set (take 0 s). is_digit c)" by (simp split: if_splits)
        then show "t \<in> ?R" by blast
      qed
      show ?thesis unfolding L R ..
    next
      case True
      have L: "?L = set (repeat_residues (residues Digit) (lo - 1) hi xs)
                 \<union> (if lo = 0 then {s} else {})"
        using Cons True by simp
      show ?thesis
      proof (intro set_eqI iffI)
        fix t assume "t \<in> ?L"
        then consider "t \<in> set (repeat_residues (residues Digit) (lo - 1) hi xs)"
          | "lo = 0" "t = s"
          unfolding L by (auto split: if_splits)
        then show "t \<in> ?R"
        proof cases
          case 1
          then obtain k where k: "t = drop k xs" "lo - 1 \<le> k" "k \<le> hi" "k \<le> length xs"
            "\<forall>c \<in> set (take k xs). is_digit c"
            unfolding Suc.IH by blast
          then have "t = drop (Suc k) s \<and> lo \<le> Suc k \<and> Suc k \<le> Suc hi \<and> Suc k \<le> length s
             \<and> (\<forall>c \<in> set (take (Suc k) s). is_digit c)"
            using Cons True by auto
          then show ?thesis by blast
        next
          case 2
          then have "t = drop 0 s \<and> lo \<le> 0 \<and> 0 \<le> Suc hi \<and> 0 \<le> length s
             \<and> (\<forall>c \<in> set (take 0 s). is_digit c)" by simp
          then show ?thesis by blast
        qed
      next
        fix t assume "t \<in> ?R"
        then obtain k where k: "t = drop k s" "lo \<le> k" "k \<le> Suc hi" "k \<le> length s"
          "\<forall>c \<in> set (take k s). is_digit c" by blast
        show "t \<in> ?L"
        proof (cases k)
          case 0
          with k show ?thesis unfolding L by simp
        next
          case (Suc j)
          with k Cons have "t = drop j xs \<and> lo - 1 \<le> j \<and> j \<le> hi \<and> j \<le> length xs
            \<and> (\<forall>c \<in> set (take j xs). is_digit c)" by auto
          then have "t \<in> set (repeat_residues (residues Digit) (lo - 1) hi xs)"
            unfolding Suc.IH by blast
          then show ?thesis unfolding L by simp
        qed
      qed
    qed
  qed
qed

lemma test_e164:
  "test_anchored e164_regex s \<longleftrightarrow>
     (\<exists>ds. s = 0x2B # ds \<and> 10 \<le> length ds \<and> length ds \<le> 15 \<and> (\<forall>d \<in> set ds. is_digit d))"
proof (cases s)
  case Nil
  then show ?thesis by (simp add: test_anchored_def e164_regex_def)
next
  case (Cons x xs)
  have "[] \<in> set (repeat_residues (residues Digit) 10 15 xs) \<longleftrightarrow>
     (10 \<le> length xs \<and> length xs \<le> 15 \<and> (\<forall>d \<in> set xs. is_digit d))"
    unfolding repeat_digit by (auto intro: exI[of _ "length xs"])
  with Cons show ?thesis
    by (simp add: test_anchored_def e164_regex_def)
qed

lemma isE164_iff:
  "isE164 s \<longleftrightarrow>
     (\<exists>ds. s = 0x2B # ds \<and> 10 \<le> length ds \<and> length ds \<le> 15
        \<and> (\<forall>d \<in> set ds. 0x30 \<le> d \<and> d \<le> 0x39))"
  unfolding isE164_def test_e164 by (auto simp: startsWith_def str_def is_digit_def)

lemma isE164_example: "isE164 (str ''+12345678901'')"
  by (simp add: isE164_iff str_def)

lemma not_isE164_short: "\<not> isE164 (str ''+12345'')"
  by (simp add: isE164_iff str_def)

text \<open>
  C7. \<open>isE164 s\<close> holds exactly when \<open>s\<close> is a \<open>+\<close> (0x2B) followed by 10 to 15 ASCII
  digits (0x30 to 0x39) and nothing else. It accepts \<open>+12345678901\<close> and rejects
  \<open>12345678901\<close> and \<open>+123\<close>.
\<close>

theorem isE164_spec:
  "(isE164 s \<longleftrightarrow>
      (\<exists>ds. s = 0x2B # ds \<and> 10 \<le> length ds \<and> length ds \<le> 15
         \<and> (\<forall>d \<in> set ds. 0x30 \<le> d \<and> d \<le> 0x39)))
   \<and> isE164 (str ''+12345678901'')
   \<and> \<not> isE164 (str ''12345678901'')
   \<and> \<not> isE164 (str ''+123'')"
proof (intro conjI)
  show "isE164 s \<longleftrightarrow>
      (\<exists>ds. s = 0x2B # ds \<and> 10 \<le> length ds \<and> length ds \<le> 15
         \<and> (\<forall>d \<in> set ds. 0x30 \<le> d \<and> d \<le> 0x39))"
    by (rule isE164_iff)
  show "isE164 (str ''+12345678901'')" by (rule isE164_example)
  show "\<not> isE164 (str ''12345678901'')" by (simp add: isE164_iff str_def)
  show "\<not> isE164 (str ''+123'')" by (simp add: isE164_iff str_def)
qed

theorem isE164_spec_witness:
  "isE164 (str ''+442071838750'') \<and> \<not> isE164 (str ''+44207183875x'')
   \<and> \<not> isE164 (str ''+1234567890123456'')"
  using isE164_spec [of "str ''+442071838750''"] isE164_spec [of "str ''+44207183875x''"]
    isE164_spec [of "str ''+1234567890123456''"]
  by (simp add: str_def)

section \<open>The document id\<close>

lemma shift_amount_5: "unat (toInt32 5 AND 31) = 5"
  by (simp add: toInt32_def)

lemma hash_step:
  "js_band (js_shl (sint w) 5 - sint w + uint c) (js_shl (sint w) 5 - sint w + uint c)
     = sint (ref_step w c)"
proof -
  have "(word_of_int (sint (push_bit 5 w) - sint w + uint c) :: 32 word)
          = push_bit 5 w - w + ucast c"
    by simp
  also have "\<dots> = w * 31 + ucast c"
    by (simp add: push_bit_eq_mult)
  finally show ?thesis
    by (simp add: js_band_def js_shl_def shift_amount_5 ref_step_def toInt32_def mult.commute)
qed

lemma hash_loop_ref: "hash_loop (sint w) cs = sint (foldl ref_step w cs)"
  by (induction cs arbitrary: w) (simp_all add: Let_def hash_step)

lemma hash_loop_0: "hash_loop 0 cs = sint (ref_hash cs)"
  using hash_loop_ref [of 0 cs] by (simp add: ref_hash_def)

lemma abs_sint32: "\<bar>sint (w :: 32 word)\<bar> \<le> 2 ^ 31"
  using sint_ge [of w] sint_lt [of w] by simp

text \<open>
  Every number the loop computes before \<open>hash & hash\<close> stays below \<open>2^53\<close> in magnitude,
  so the double arithmetic of the source is the integer arithmetic of the model.
\<close>

lemma hash_intermediate_exact:
  "\<bar>js_shl (sint (w :: 32 word)) 5 - sint w + uint (c :: jschar)\<bar> < 2 ^ 53"
proof -
  have a: "\<bar>js_shl (sint w) 5\<bar> \<le> 2147483648"
    using abs_sint32 [of "push_bit (unat (toInt32 5 AND 31)) (toInt32 (sint w))"]
    by (simp add: js_shl_def)
  have b: "\<bar>sint w\<bar> \<le> 2147483648"
    using abs_sint32 [of w] by simp
  have c: "0 \<le> uint c" "uint c < 65536"
    using uint_lt2p [of c] by simp_all
  have "\<bar>js_shl (sint w) 5 - sint w + uint c\<bar> < 9007199254740992"
    using a b c by linarith
  then show ?thesis by simp
qed

lemma createDocumentId_ref:
  "createDocumentId phone =
     str ''spam_check_'' @ take 8 (to_radix 16 (nat \<bar>sint (ref_hash phone)\<bar>))"
  by (simp add: createDocumentId_def hash_loop_0 number_toString_def js_slice_take)

lemma abs_hash_bound: "nat \<bar>sint (ref_hash phone)\<bar> < 16 ^ Suc 7"
  using abs_sint32 [of "ref_hash phone"] by simp

lemma hex_length_8: "length (to_radix 16 (nat \<bar>sint (ref_hash phone)\<bar>)) \<le> 8"
  using to_radix_length [OF abs_hash_bound, of phone] by simp

lemma createDocumentId_empty: "createDocumentId [] = str ''spam_check_0''"
  by (simp add: createDocumentId_def number_toString_def js_slice_take str_def
      to_radix.simps [of 16 0] digit_char_def)

lemma createDocumentId_a: "createDocumentId (str ''a'') = str ''spam_check_61''"
  by (simp add: createDocumentId_def number_toString_def js_slice_take str_def js_shl_def
      js_band_def toInt32_def to_radix_numeral digit_char_def)

text \<open>
  C1. The hash that \<open>createDocumentId\<close> computes with \<open>((hash << 5) - hash) + char\<close> and
  \<open>hash & hash\<close> is the signed reading of the 32-bit reference hash
  (\<open>hash * 31 + charCode\<close> with wrap-around, from 0, over the code units in order). The id
  is \<open>spam_check_\<close> followed by the first 8 characters (at most) of the numeral that
  \<open>toString(16)\<close> gives for the absolute value of that hash, and this numeral, read as
  lowercase hexadecimal, has that absolute value. The id is a function of the string.
\<close>

theorem createDocumentId_spec:
  "hash_loop 0 phone = sint (ref_hash phone)
   \<and> createDocumentId phone =
       str ''spam_check_'' @ take 8 (to_radix 16 (nat \<bar>sint (ref_hash phone)\<bar>))
   \<and> parse_hex (to_radix 16 (nat \<bar>sint (ref_hash phone)\<bar>)) = Some (nat \<bar>sint (ref_hash phone)\<bar>)"
  by (simp add: hash_loop_0 createDocumentId_ref parse_hex_to_radix)

theorem createDocumentId_spec_witness:
  "hash_loop 0 (str ''+1'') = 1382 \<and> createDocumentId (str ''+1'') = str ''spam_check_566''"
  using createDocumentId_spec [of "str ''+1''"]
  by (simp add: str_def ref_hash_def ref_step_def to_radix_numeral digit_char_def)

text \<open>
  C10. Every id is \<open>spam_check_\<close> followed by 1 to 8 characters out of
  \<open>0123456789abcdef\<close>; when the absolute value of the hash is below \<open>16^7\<close> there are
  fewer than 8 of them. The empty string gives \<open>spam_check_0\<close>, and the ids of the empty
  string and of \<open>a\<close> differ in length.
\<close>

theorem createDocumentId_shape:
  "(\<exists>hex. createDocumentId phone = str ''spam_check_'' @ hex
      \<and> 1 \<le> length hex \<and> length hex \<le> 8
      \<and> set hex \<subseteq> set (str ''0123456789abcdef'')
      \<and> (\<bar>hash_loop 0 phone\<bar> < 16 ^ 7 \<longrightarrow> length hex < 8))
   \<and> createDocumentId [] = str ''spam_check_0''
   \<and> length (createDocumentId []) \<noteq> length (createDocumentId (str ''a''))"
proof (intro conjI)
  let ?n = "nat \<bar>sint (ref_hash phone)\<bar>"
  let ?hex = "take 8 (to_radix 16 ?n)"
  have full: "?hex = to_radix 16 ?n"
    using hex_length_8 [of phone] by simp
  have 1: "createDocumentId phone = str ''spam_check_'' @ ?hex"
    by (rule createDocumentId_ref)
  have 2: "1 \<le> length ?hex"
    unfolding full using to_radix_nonempty [of 16 ?n] by (cases "to_radix 16 ?n") simp_all
  have 3: "length ?hex \<le> 8" by simp
  have 4: "set ?hex \<subseteq> set (str ''0123456789abcdef'')"
    unfolding full by (rule to_radix_hex)
  have 5: "\<bar>hash_loop 0 phone\<bar> < 16 ^ 7 \<longrightarrow> length ?hex < 8"
  proof
    assume "\<bar>hash_loop 0 phone\<bar> < 16 ^ 7"
    then have "?n < 16 ^ Suc 6" by (simp add: hash_loop_0)
    from to_radix_length [OF this] show "length ?hex < 8" unfolding full by simp
  qed
  from 1 2 3 4 5
  show "\<exists>hex. createDocumentId phone = str ''spam_check_'' @ hex
      \<and> 1 \<le> length hex \<and> length hex \<le> 8
      \<and> set hex \<subseteq> set (str ''0123456789abcdef'')
      \<and> (\<bar>hash_loop 0 phone\<bar> < 16 ^ 7 \<longrightarrow> length hex < 8)"
    by blast
  show "createDocumentId [] = str ''spam_check_0''" by (rule createDocumentId_empty)
  show "length (createDocumentId []) \<noteq> length (createDocumentId (str ''a''))"
    unfolding createDocumentId_empty createDocumentId_a by (simp add: str_def)
qed

theorem createDocumentId_shape_witness:
  "\<bar>hash_loop 0 (str ''a'')\<bar> < 16 ^ 7
   \<and> (\<exists>hex. createDocumentId (str ''a'') = str ''spam_check_'' @ hex \<and> length hex < 8)"
proof -
  have h: "\<bar>hash_loop 0 (str ''a'')\<bar> < 16 ^ 7"
    by (simp add: str_def js_shl_def js_band_def toInt32_def)
  with createDocumentId_shape [of "str ''a''"] show ?thesis by blast
qed

section \<open>The lookup client\<close>

lemma get_prop_total: "\<not> nullish v \<Longrightarrow> \<exists>x. get_prop v k = Inr x"
  by (cases v) simp_all

lemma not_nullish_or_else_obj: "\<not> nullish (or_else v (Obj []))"
  by (cases v) (simp_all add: or_else_def)

lemma parse_score_total: "\<not> nullish data \<Longrightarrow> \<exists>sc. parse_score data = Inr sc"
proof -
  assume d: "\<not> nullish data"
  obtain a where a: "get_prop data (str ''add_ons'') = Inr a"
    using get_prop_total [OF d] by blast
  obtain r where r: "get_prop (or_else a (Obj [])) (str ''results'') = Inr r"
    using get_prop_total [OF not_nullish_or_else_obj] by blast
  obtain n where n: "get_prop (or_else r (Obj [])) (str ''nomorobo_spamscore'') = Inr n"
    using get_prop_total [OF not_nullish_or_else_obj] by blast
  obtain res where res: "get_prop (or_else n (Obj [])) (str ''result'') = Inr res"
    using get_prop_total [OF not_nullish_or_else_obj] by blast
  obtain sc where sc: "get_prop (or_else res (Obj [])) (str ''score'') = Inr sc"
    using get_prop_total [OF not_nullish_or_else_obj] by blast
  show ?thesis
    by (simp add: parse_score_def and_then_def a r n res sc)
qed

lemma carrier_name_total: "\<not> nullish data \<Longrightarrow> \<exists>c. carrier_name data = Inr c"
proof -
  assume d: "\<not> nullish data"
  obtain c where c: "get_prop data (str ''carrier'') = Inr c"
    using get_prop_total [OF d] by blast
  show ?thesis
  proof (cases "nullish c")
    case True
    then show ?thesis by (simp add: carrier_name_def and_then_def c)
  next
    case False
    then obtain n where "get_prop c (str ''name'') = Inr n"
      using get_prop_total by blast
    with False show ?thesis by (simp add: carrier_name_def and_then_def c)
  qed
qed

lemma build_result_total: "\<not> nullish data \<Longrightarrow> \<exists>r. build_result pf p data = Inr r"
proof -
  assume d: "\<not> nullish data"
  obtain sc where sc: "parse_score data = Inr sc" using parse_score_total [OF d] by blast
  obtain c where c: "carrier_name data = Inr c" using carrier_name_total [OF d] by blast
  obtain cc where cc: "get_prop data (str ''country_code'') = Inr cc"
    using get_prop_total [OF d] by blast
  obtain ty where ty: "get_prop data (str ''type'') = Inr ty"
    using get_prop_total [OF d] by blast
  show ?thesis
    by (simp add: build_result_def and_then_def sc c cc ty mask_eq)
qed

lemma stub_upstream: "upstream (stub_platform out) call = out"
  by (simp add: stub_platform_def)

lemma stub_now_ms: "now_ms (stub_platform out) = 1700000000000"
  by (simp add: stub_platform_def)

lemma to_radix_0: "to_radix r 0 = [digit_char 0]"
  by (subst to_radix.simps) auto

lemma to_radix_1: "to_radix r (Suc 0) = [digit_char 1]"
  by (subst to_radix.simps) auto

lemma number_toString_503: "str ''Twilio API error: '' @ number_toString 503 10 = str ''Twilio API error: 503''"
  by (simp add: number_toString_def to_radix_numeral to_radix_0 to_radix_1 digit_char_def str_def)

lemma number_toString_now:
  "str ''error_'' @ number_toString 1700000000000 10 = str ''error_1700000000000''"
  by (simp add: number_toString_def to_radix_numeral to_radix_0 to_radix_1 digit_char_def str_def)

text \<open>
  C5. When \<open>isE164 p\<close> is false, \<open>checkSpamScore\<close> throws
  \<open>Invalid phone number format: p\<close> and has made no outbound call. When it is true,
  it has made exactly one outbound call, the lookup of \<open>p\<close>. So the upstream is
  contacted only for a number of valid format, and then once.
\<close>

theorem checkSpamScore_precondition:
  "(\<not> isE164 p \<longrightarrow>
      checkSpamScore pf e p = (Inl (Error (str ''Invalid phone number format: '' @ p)), []))
   \<and> (isE164 p \<longrightarrow> snd (checkSpamScore pf e p) = [lookup_call e p])
   \<and> (snd (checkSpamScore pf e p) \<noteq> [] \<longrightarrow> isE164 p)
   \<and> length (snd (checkSpamScore pf e p)) = (if isE164 p then 1 else 0)"
  by (simp add: checkSpamScore_def)

theorem checkSpamScore_precondition_witness:
  "checkSpamScore (stub_platform (Response 200 (Json (Obj [])))) test_env (str ''+12345'')
     = (Inl (Error (str ''Invalid phone number format: +12345'')), [])
   \<and> snd (checkSpamScore (stub_platform (Response 200 (Json (Obj [])))) test_env
        (str ''+12345678901'')) = [lookup_call test_env (str ''+12345678901'')]"
proof -
  let ?pf = "stub_platform (Response 200 (Json (Obj [])))"
  have a: "checkSpamScore ?pf test_env (str ''+12345'')
      = (Inl (Error (str ''Invalid phone number format: '' @ str ''+12345'')), [])"
    using checkSpamScore_precondition [of "str ''+12345''" ?pf test_env] not_isE164_short
    by blast
  have b: "snd (checkSpamScore ?pf test_env (str ''+12345678901''))
      = [lookup_call test_env (str ''+12345678901'')]"
    using checkSpamScore_precondition [of "str ''+12345678901''" ?pf test_env] isE164_example
    by blast
  have c: "str ''Invalid phone number format: '' @ str ''+12345''
      = str ''Invalid phone number format: +12345''"
    by (simp add: str_def)
  from a b show ?thesis unfolding c by (rule conjI)
qed

lemma status_messages_distinct:
  "distinct [str ''Phone number not found: '' @ p, str ''Twilio authentication failed'',
     str ''Twilio rate limit exceeded'', str ''Twilio API error: '' @ n]"
  by (simp add: str_def)

text \<open>
  worker.js. For a number of valid format whose lookup is answered with status \<open>st\<close>:
  404 throws \<open>Phone number not found: p\<close>, 401 throws \<open>Twilio authentication failed\<close>,
  429 throws \<open>Twilio rate limit exceeded\<close>, any other status outside 200..299 throws
  \<open>Twilio API error: st\<close>, and these four messages are pairwise different. With a
  status in 200..299 the outcome depends on the body alone, and a body that parses to
  a value other than \<open>null\<close> gives a result.
\<close>

lemma checkSpamScore_status_worker:
  assumes "isE164 p" and "upstream pf (lookup_call e p) = Response st b"
  shows "(st = 404 \<longrightarrow>
            fst (checkSpamScore pf e p) = Inl (Error (str ''Phone number not found: '' @ p)))
       \<and> (st = 401 \<longrightarrow>
            fst (checkSpamScore pf e p) = Inl (Error (str ''Twilio authentication failed'')))
       \<and> (st = 429 \<longrightarrow>
            fst (checkSpamScore pf e p) = Inl (Error (str ''Twilio rate limit exceeded'')))
       \<and> (st \<noteq> 404 \<and> st \<noteq> 401 \<and> st \<noteq> 429 \<and> (st < 200 \<or> 299 < st) \<longrightarrow>
            fst (checkSpamScore pf e p)
              = Inl (Error (str ''Twilio API error: '' @ number_toString (int st) 10)))
       \<and> (200 \<le> st \<and> st \<le> 299 \<longrightarrow>
            fst (checkSpamScore pf e p)
              = (case b of BadJson err \<Rightarrow> Inl err | Json data \<Rightarrow> build_result pf p data))
       \<and> (200 \<le> st \<and> st \<le> 299 \<longrightarrow>
            (\<forall>data. b = Json data \<and> \<not> nullish data \<longrightarrow>
               (\<exists>r. fst (checkSpamScore pf e p) = Inr r)))
       \<and> distinct [str ''Phone number not found: '' @ p, str ''Twilio authentication failed'',
            str ''Twilio rate limit exceeded'',
            str ''Twilio API error: '' @ number_toString (int st) 10]"
proof (intro conjI impI)
  assume "st = 404"
  then show "fst (checkSpamScore pf e p) = Inl (Error (str ''Phone number not found: '' @ p))"
    using assms by (simp add: checkSpamScore_def)
next
  assume "st = 401"
  then show "fst (checkSpamScore pf e p) = Inl (Error (str ''Twilio authentication failed''))"
    using assms by (simp add: checkSpamScore_def)
next
  assume "st = 429"
  then show "fst (checkSpamScore pf e p) = Inl (Error (str ''Twilio rate limit exceeded''))"
    using assms by (simp add: checkSpamScore_def)
next
  assume "st \<noteq> 404 \<and> st \<noteq> 401 \<and> st \<noteq> 429 \<and> (st < 200 \<or> 299 < st)"
  then have "st \<noteq> 404" "st \<noteq> 401" "st \<noteq> 429" "\<not> ok st"
    by (auto simp add: ok_def)
  then show "fst (checkSpamScore pf e p)
      = Inl (Error (str ''Twilio API error: '' @ number_toString (int st) 10))"
    using assms by (simp add: checkSpamScore_def)
next
  assume "200 \<le> st \<and> st \<le> 299"
  then have "st \<noteq> 404" "st \<noteq> 401" "st \<noteq> 429" "ok st"
    by (auto simp add: ok_def)
  then show "fst (checkSpamScore pf e p)
      = (case b of BadJson err \<Rightarrow> Inl err | Json data \<Rightarrow> build_result pf p data)"
    using assms by (simp add: checkSpamScore_def)
next
  assume "200 \<le> st \<and> st \<le> 299"
  then have st: "st \<noteq> 404" "st \<noteq> 401" "st \<noteq> 429" "ok st"
    by (auto simp add: ok_def)
  show "\<forall>data. b = Json data \<and> \<not> nullish data \<longrightarrow>
      (\<exists>r. fst (checkSpamScore pf e p) = Inr r)"
  proof (intro allI impI)
    fix data assume d: "b = Json data \<and> \<not> nullish data"
    then obtain r where "build_result pf p data = Inr r"
      using build_result_total by blast
    with d st assms show "\<exists>r. fst (checkSpamScore pf e p) = Inr r"
      by (simp add: checkSpamScore_def)
  qed
next
  show "distinct [str ''Phone number not found: '' @ p, str ''Twilio authentication failed'',
      str ''Twilio rate limit exceeded'',
      str ''Twilio API error: '' @ number_toString (int st) 10]"
    by (rule status_messages_distinct)
qed

text \<open>
  The event-stream variant: every status outside 200..299 throws
  \<open>Twilio API error: st\<close>, whatever the status is.
\<close>

lemma checkSpamScore_sse_status:
  assumes "isE164 p" and "upstream pf (lookup_call e p) = Response st b" and "\<not> ok st"
  shows "fst (checkSpamScore_sse pf e p)
    = Inl (Error (str ''Twilio API error: '' @ number_toString (int st) 10))"
  using assms by (simp add: checkSpamScore_sse_def)

lemma not_ok_4xx: "\<not> ok 404" "\<not> ok 401" "\<not> ok 429"
  by (simp_all add: ok_def)

lemma number_toString_4xx:
  "str ''Twilio API error: '' @ number_toString (int 404) 10 = str ''Twilio API error: 404''"
  "str ''Twilio API error: '' @ number_toString (int 401) 10 = str ''Twilio API error: 401''"
  "str ''Twilio API error: '' @ number_toString (int 429) 10 = str ''Twilio API error: 429''"
  by (simp_all add: number_toString_def to_radix_numeral to_radix_0 to_radix_1 digit_char_def
      str_def)

lemma not_found_text:
  "str ''Phone number not found: '' @ str ''+12345678901''
     = str ''Phone number not found: +12345678901''"
  by (simp add: str_def)

text \<open>
  C6. The two lookup clients disagree. For the valid number \<open>+12345678901\<close>,
  \<open>checkSpamScore\<close> of the event-stream variant throws the generic
  \<open>Twilio API error: st\<close> when the upstream answers 404, 401 or 429, while
  \<open>checkSpamScore\<close> of worker.js throws the not-found, the authentication and the
  rate-limit message for the same answers.
\<close>

theorem checkSpamScore_sse_status_generic:
  "fst (checkSpamScore_sse (stub_platform (Response 404 (Json Null))) test_env
          (str ''+12345678901'')) = Inl (Error (str ''Twilio API error: 404''))
   \<and> fst (checkSpamScore_sse (stub_platform (Response 401 (Json Null))) test_env
          (str ''+12345678901'')) = Inl (Error (str ''Twilio API error: 401''))
   \<and> fst (checkSpamScore_sse (stub_platform (Response 429 (Json Null))) test_env
          (str ''+12345678901'')) = Inl (Error (str ''Twilio API error: 429''))
   \<and> fst (checkSpamScore (stub_platform (Response 404 (Json Null))) test_env
          (str ''+12345678901'')) = Inl (Error (str ''Phone number not found: +12345678901''))
   \<and> fst (checkSpamScore (stub_platform (Response 401 (Json Null))) test_env
          (str ''+12345678901'')) = Inl (Error (str ''Twilio authentication failed''))
   \<and> fst (checkSpamScore (stub_platform (Response 429 (Json Null))) test_env
          (str ''+12345678901'')) = Inl (Error (str ''Twilio rate limit exceeded''))"
proof (intro conjI)
  note S = checkSpamScore_sse_status [OF isE164_example stub_upstream]
  note W = checkSpamScore_status_worker [OF isE164_example stub_upstream]
  show "fst (checkSpamScore_sse (stub_platform (Response 404 (Json Null))) test_env
          (str ''+12345678901'')) = Inl (Error (str ''Twilio API error: 404''))"
    using S [OF not_ok_4xx(1), of "Json Null" test_env] unfolding number_toString_4xx .
  show "fst (checkSpamScore_sse (stub_platform (Response 401 (Json Null))) test_env
          (str ''+12345678901'')) = Inl (Error (str ''Twilio API error: 401''))"
    using S [OF not_ok_4xx(2), of "Json Null" test_env] unfolding number_toString_4xx .
  show "fst (checkSpamScore_sse (stub_platform (Response 429 (Json Null))) test_env
          (str ''+12345678901'')) = Inl (Error (str ''Twilio API error: 429''))"
    using S [OF not_ok_4xx(3), of "Json Null" test_env] unfolding number_toString_4xx .
  show "fst (checkSpamScore (stub_platform (Response 404 (Json Null))) test_env
          (str ''+12345678901'')) = Inl (Error (str ''Phone number not found: +12345678901''))"
    using W [of 404 "Json Null" test_env] unfolding not_found_text [symmetric] by blast
  show "fst (checkSpamScore (stub_platform (Response 401 (Json Null))) test_env
          (str ''+12345678901'')) = Inl (Error (str ''Twilio authentication failed''))"
    using W [of 401 "Json Null" test_env] by blast
  show "fst (checkSpamScore (stub_platform (Response 429 (Json Null))) test_env
          (str ''+12345678901'')) = Inl (Error (str ''Twilio rate limit exceeded''))"
    using W [of 429 "Json Null" test_env] by blast
qed

section \<open>The search tool\<close>

lemma trim_example: "trim (str ''+12345678901'') = str ''+12345678901''"
  by (simp add: trim_def str_def is_js_space_def)

lemma trim_short: "trim (str ''+12345'') = str ''+12345''"
  by (simp add: trim_def str_def is_js_space_def)

lemma tool_request_params:
  "get_prop (tool_request name args) (str ''params'')
     = Inr (Obj [(str ''name'', Str name), (str ''arguments'', args)])"
  by (simp add: tool_request_def str_def)

lemma tool_request_id: "get_prop (tool_request name args) (str ''id'') = Inr (Num 1)"
  by (simp add: tool_request_def str_def)

lemma params_name:
  "get_prop (Obj [(str ''name'', Str name), (str ''arguments'', args)]) (str ''name'') = Inr (Str name)"
  by (simp add: str_def)

lemma params_arguments:
  "get_prop (Obj [(str ''name'', Str name), (str ''arguments'', args)]) (str ''arguments'') = Inr args"
  by (simp add: str_def)

lemma args_query: "get_prop (Obj [(str ''query'', q)]) (str ''query'') = Inr q"
  by simp



lemma starts_plus_example: "startsWith (str ''+12345678901'') (str ''+'')"
  by (simp add: startsWith_def str_def)

lemma starts_plus_short: "startsWith (str ''+12345'') (str ''+'')"
  by (simp add: startsWith_def str_def)

lemma length_example: "length (str ''+12345678901'') > 5"
  by (simp add: str_def)

lemma length_short: "length (str ''+12345'') > 5"
  by (simp add: str_def)

lemma mask_example: "maskPhoneNumber (str ''+12345678901'') = Inr (str ''********8901'')"
  by (simp add: mask_eq str_def eval_nat_numeral)

lemma mask_short: "maskPhoneNumber (str ''+12345'') = Inr (str ''**2345'')"
  by (simp add: mask_eq str_def eval_nat_numeral)

lemma check_429:
  "checkSpamScore (stub_platform (Response 429 b)) e (str ''+12345678901'')
     = (Inl (Error (str ''Twilio rate limit exceeded'')), [lookup_call e (str ''+12345678901'')])"
  by (simp add: checkSpamScore_def isE164_example stub_upstream)

lemma check_404:
  "checkSpamScore (stub_platform (Response 404 b)) e (str ''+12345678901'')
     = (Inl (Error (str ''Phone number not found: '' @ str ''+12345678901'')),
        [lookup_call e (str ''+12345678901'')])"
  by (simp add: checkSpamScore_def isE164_example stub_upstream)

lemma check_short:
  "checkSpamScore pf e (str ''+12345'')
     = (Inl (Error (str ''Invalid phone number format: '' @ str ''+12345'')), [])"
  by (simp add: checkSpamScore_def not_isE164_short)

lemma text_429:
  "str ''Could not check spam status: '' @ message (Error (str ''Twilio rate limit exceeded''))
     = str ''Could not check spam status: Twilio rate limit exceeded''"
  by (simp add: str_def)

lemma text_404:
  "str ''Could not check spam status: ''
      @ message (Error (str ''Phone number not found: '' @ str ''+12345678901''))
     = str ''Could not check spam status: Phone number not found: +12345678901''"
  by (simp add: str_def)

lemma text_short:
  "str ''Could not check spam status: ''
      @ message (Error (str ''Invalid phone number format: '' @ str ''+12345''))
     = str ''Could not check spam status: Invalid phone number format: +12345''"
  by (simp add: str_def)

lemma title_example: "str ''Error checking '' @ str ''********8901'' = str ''Error checking ********8901''"
  by (simp add: str_def)

lemma title_short: "str ''Error checking '' @ str ''**2345'' = str ''Error checking **2345''"
  by (simp add: str_def)

lemma search_failure_general:
  assumes params: "get_prop request (str ''params'') = Inr params"
    and name: "get_prop params (str ''name'') = Inr (Str (str ''search''))"
    and args: "get_prop params (str ''arguments'') = Inr args"
    and query: "get_prop args (str ''query'') = Inr (Str q)"
    and plus: "startsWith (trim q) (str ''+'')"
    and long: "length (trim q) > 5"
    and rid: "get_prop request (str ''id'') = Inr rid"
    and failure: "checkSpamScore pf e (trim q) = (Inl err, calls)"
  shows "\<exists>masked. maskPhoneNumber (trim q) = Inr masked
     \<and> handleToolCall pf e request =
        (Inr (Result rid (SearchResults
           [\<lparr> item_id = str ''error_'' @ number_toString (now_ms pf) 10,
              item_title = str ''Error checking '' @ masked,
              item_text = str ''Could not check spam status: '' @ message err,
              item_url = str ''https://spam-checker.example.com/error'' \<rparr>])),
         calls)"
proof -
  obtain masked where m: "maskPhoneNumber (trim q) = Inr masked"
    using mask_eq by blast
  have q: "query_of args = Inr (Some (trim q))"
    using query by (simp add: query_of_def and_then_def)
  have ne: "trim q \<noteq> []" using long by auto
  have s: "search_phone pf e request (trim q) =
        (Inr (Result rid (SearchResults
           [\<lparr> item_id = str ''error_'' @ number_toString (now_ms pf) 10,
              item_title = str ''Error checking '' @ masked,
              item_text = str ''Could not check spam status: '' @ message err,
              item_url = str ''https://spam-checker.example.com/error'' \<rparr>])),
         calls)"
    by (simp add: search_phone_def failure and_then_def error_item_def m reply_def rid)
  have "handleToolCall pf e request = search_phone pf e request (trim q)"
    using plus long ne by (simp add: handleToolCall_def params name args and_then_def q)
  with m s show ?thesis by simp
qed

lemma search_failure_stub:
  assumes "trim q = q" "startsWith q (str ''+'')" "length q > 5"
    "checkSpamScore (stub_platform out) e q = (Inl err, calls)"
    "maskPhoneNumber q = Inr masked"
  shows "handleToolCall (stub_platform out) e (tool_request (str ''search'') (Obj [(str ''query'', Str q)]))
     = (Inr (Result (Num 1) (SearchResults
           [\<lparr> item_id = str ''error_1700000000000'',
              item_title = str ''Error checking '' @ masked,
              item_text = str ''Could not check spam status: '' @ message err,
              item_url = str ''https://spam-checker.example.com/error'' \<rparr>])),
         calls)"
proof -
  have "\<exists>m. maskPhoneNumber (trim q) = Inr m
     \<and> handleToolCall (stub_platform out) e (tool_request (str ''search'') (Obj [(str ''query'', Str q)])) =
        (Inr (Result (Num 1) (SearchResults
           [\<lparr> item_id = str ''error_'' @ number_toString (now_ms (stub_platform out)) 10,
              item_title = str ''Error checking '' @ m,
              item_text = str ''Could not check spam status: '' @ message err,
              item_url = str ''https://spam-checker.example.com/error'' \<rparr>])),
         calls)"
    using assms
    by (intro search_failure_general [OF tool_request_params params_name params_arguments
        args_query _ _ tool_request_id]) simp_all
  then show ?thesis
    using assms by (auto simp add: stub_now_ms number_toString_now)
qed

text \<open>
  C2. A \<open>tools/call\<close> of \<open>search\<close> whose trimmed query starts with \<open>+\<close> and is longer
  than 5, and for which \<open>checkSpamScore\<close> throws \<open>err\<close> (whatever the reason),
  returns a success envelope (\<open>Result\<close>, not \<open>ErrorEnvelope\<close>, and no exception) with
  the request's id and exactly one item: its id is \<open>error_\<close> followed by \<open>Date.now()\<close>,
  its title is the masked query, its text is \<open>Could not check spam status: \<close> followed
  by the message of \<open>err\<close>.
\<close>

theorem search_failure_is_success_envelope:
  assumes "get_prop request (str ''params'') = Inr params"
    and "get_prop params (str ''name'') = Inr (Str (str ''search''))"
    and "get_prop params (str ''arguments'') = Inr args"
    and "get_prop args (str ''query'') = Inr (Str q)"
    and "startsWith (trim q) (str ''+'')"
    and "length (trim q) > 5"
    and "get_prop request (str ''id'') = Inr rid"
    and "checkSpamScore pf e (trim q) = (Inl err, calls)"
  shows "\<exists>masked. maskPhoneNumber (trim q) = Inr masked
     \<and> handleToolCall pf e request =
        (Inr (Result rid (SearchResults
           [\<lparr> item_id = str ''error_'' @ number_toString (now_ms pf) 10,
              item_title = str ''Error checking '' @ masked,
              item_text = str ''Could not check spam status: '' @ message err,
              item_url = str ''https://spam-checker.example.com/error'' \<rparr>])),
         calls)"
  using assms by (rule search_failure_general)

theorem search_failure_is_success_envelope_witness:
  "handleToolCall (stub_platform (Response 429 (Json Null))) test_env
      (tool_request (str ''search'') (Obj [(str ''query'', Str (str ''+12345678901''))]))
     = (Inr (Result (Num 1) (SearchResults
           [\<lparr> item_id = str ''error_1700000000000'',
              item_title = str ''Error checking ********8901'',
              item_text = str ''Could not check spam status: Twilio rate limit exceeded'',
              item_url = str ''https://spam-checker.example.com/error'' \<rparr>])),
         [lookup_call test_env (str ''+12345678901'')])"
proof -
  let ?q = "str ''+12345678901''"
  let ?pf = "stub_platform (Response 429 (Json Null))"
  have plus: "startsWith (trim ?q) (str ''+'')"
    unfolding trim_example by (rule starts_plus_example)
  have long: "length (trim ?q) > 5"
    unfolding trim_example by (rule length_example)
  have failure: "checkSpamScore ?pf test_env (trim ?q)
      = (Inl (Error (str ''Twilio rate limit exceeded'')), [lookup_call test_env ?q])"
    unfolding trim_example by (rule check_429)
  from search_failure_is_success_envelope [OF tool_request_params params_name
      params_arguments args_query plus long tool_request_id failure]
  obtain masked where m: "maskPhoneNumber (trim ?q) = Inr masked"
    and h: "handleToolCall ?pf test_env (tool_request (str ''search'') (Obj [(str ''query'', Str ?q)]))
      = (Inr (Result (Num 1) (SearchResults
           [\<lparr> item_id = str ''error_'' @ number_toString (now_ms ?pf) 10,
              item_title = str ''Error checking '' @ masked,
              item_text = str ''Could not check spam status: ''
                 @ message (Error (str ''Twilio rate limit exceeded'')),
              item_url = str ''https://spam-checker.example.com/error'' \<rparr>])),
         [lookup_call test_env ?q])"
    by blast
  from m have "masked = str ''********8901''"
    unfolding trim_example mask_example by simp
  with h show ?thesis
    unfolding stub_now_ms number_toString_now text_429 by (simp only: title_example)
qed

text \<open>
  C4. The synthetic error item repeats the number unmasked. For the query \<open>+12345\<close>,
  which is not of valid format, and for the valid number \<open>+12345678901\<close> answered with
  status 404, the title of the item holds the masked number and the text of the same
  item holds the number in full.
\<close>

theorem search_error_text_unmasked:
  "handleToolCall (stub_platform (Response 200 (Json (Obj [])))) test_env
      (tool_request (str ''search'') (Obj [(str ''query'', Str (str ''+12345''))]))
     = (Inr (Result (Num 1) (SearchResults
           [\<lparr> item_id = str ''error_1700000000000'',
              item_title = str ''Error checking **2345'',
              item_text = str ''Could not check spam status: Invalid phone number format: +12345'',
              item_url = str ''https://spam-checker.example.com/error'' \<rparr>])), [])
   \<and> handleToolCall (stub_platform (Response 404 (Json Null))) test_env
      (tool_request (str ''search'') (Obj [(str ''query'', Str (str ''+12345678901''))]))
     = (Inr (Result (Num 1) (SearchResults
           [\<lparr> item_id = str ''error_1700000000000'',
              item_title = str ''Error checking ********8901'',
              item_text = str ''Could not check spam status: Phone number not found: +12345678901'',
              item_url = str ''https://spam-checker.example.com/error'' \<rparr>])),
        [lookup_call test_env (str ''+12345678901'')])"
proof (rule conjI)
  show "handleToolCall (stub_platform (Response 200 (Json (Obj [])))) test_env
      (tool_request (str ''search'') (Obj [(str ''query'', Str (str ''+12345''))]))
     = (Inr (Result (Num 1) (SearchResults
           [\<lparr> item_id = str ''error_1700000000000'',
              item_title = str ''Error checking **2345'',
              item_text = str ''Could not check spam status: Invalid phone number format: +12345'',
              item_url = str ''https://spam-checker.example.com/error'' \<rparr>])), [])"
    using search_failure_stub [OF trim_short starts_plus_short length_short check_short mask_short,
        of "Response 200 (Json (Obj []))" test_env]
    unfolding text_short title_short .
  show "handleToolCall (stub_platform (Response 404 (Json Null))) test_env
      (tool_request (str ''search'') (Obj [(str ''query'', Str (str ''+12345678901''))]))
     = (Inr (Result (Num 1) (SearchResults
           [\<lparr> item_id = str ''error_1700000000000'',
              item_title = str ''Error checking ********8901'',
              item_text = str ''Could not check spam status: Phone number not found: +12345678901'',
              item_url = str ''https://spam-checker.example.com/error'' \<rparr>])),
        [lookup_call test_env (str ''+12345678901'')])"
    using search_failure_stub [OF trim_example starts_plus_example length_example check_404
        mask_example, of "Json Null" test_env]
    unfolding text_404 title_example .
qed

section \<open>The fetch tool\<close>





section \<open>The synchronous transport\<close>

lemma post_not_options: "str ''POST'' \<noteq> str ''OPTIONS''"
  by (simp add: str_def)

lemma mcp_not_health: "str ''/mcp'' \<noteq> str ''/health''"
  by (simp add: str_def)

lemma default_fetch_bad_json:
  assumes "http_method request = str ''POST''" and "pathname request = str ''/mcp''"
    and "json_body request = BadJson err"
  shows "default_fetch pf e request =
     (\<lparr> status = 500,
        content = JsonContent
          (ErrorEnvelope Null (- 32603) (str ''Internal error: '' @ message err)) \<rparr>, [])"
  using assms post_not_options mcp_not_health
  by (simp add: default_fetch_def dispatch_def)

lemma internal_error_text:
  "str ''Internal error: '' @ message (SyntaxError (str ''Unexpected end of JSON input''))
     = str ''Internal error: Unexpected end of JSON input''"
  by (simp add: str_def)

text \<open>
  C3. The \<open>/mcp\<close> route does not answer a body that is not JSON with a parse error:
  for the POST whose \<open>request.json()\<close> raises
  \<open>SyntaxError: Unexpected end of JSON input\<close>, the response has status 500, not 200,
  and its envelope has id \<open>null\<close> and the code -32603 of an internal error, not
  -32700; no outbound call is made.
\<close>

theorem mcp_malformed_body_internal_error:
  "default_fetch (stub_platform (Response 200 (Json (Obj [])))) test_env
      \<lparr> http_method = str ''POST'', pathname = str ''/mcp'',
        json_body = BadJson (SyntaxError (str ''Unexpected end of JSON input'')) \<rparr>
    = (\<lparr> status = 500,
         content = JsonContent (ErrorEnvelope Null (- 32603)
           (str ''Internal error: Unexpected end of JSON input'')) \<rparr>, [])
   \<and> status (fst (default_fetch (stub_platform (Response 200 (Json (Obj [])))) test_env
      \<lparr> http_method = str ''POST'', pathname = str ''/mcp'',
        json_body = BadJson (SyntaxError (str ''Unexpected end of JSON input'')) \<rparr>)) \<noteq> 200
   \<and> error_code (fst (default_fetch (stub_platform (Response 200 (Json (Obj [])))) test_env
      \<lparr> http_method = str ''POST'', pathname = str ''/mcp'',
        json_body = BadJson (SyntaxError (str ''Unexpected end of JSON input'')) \<rparr>))
      \<noteq> Some (- 32700)"
proof -
  have r: "default_fetch (stub_platform (Response 200 (Json (Obj [])))) test_env
      \<lparr> http_method = str ''POST'', pathname = str ''/mcp'',
        json_body = BadJson (SyntaxError (str ''Unexpected end of JSON input'')) \<rparr>
    = (\<lparr> status = 500,
         content = JsonContent (ErrorEnvelope Null (- 32603)
           (str ''Internal error: Unexpected end of JSON input'')) \<rparr>, [])"
    unfolding internal_error_text [symmetric]
    by (rule default_fetch_bad_json) simp_all
  show ?thesis unfolding r by simp
qed

end
